theory Spec2Isabelle
  imports Main "HOL-Library.Sublist"
begin

section \<open>Python string operations used by the server\<close>

text \<open>
  A Python \<open>str\<close> is modelled as a list of characters. The operations below are the
  ones \<open>word_mcp_server.py\<close> calls on strings; each follows the behaviour of the
  CPython method of the same name, including its special case for an empty pattern.
\<close>

text \<open>\<open>s.startswith(p)\<close>\<close>

fun py_startswith :: "'a list \<Rightarrow> 'a list \<Rightarrow> bool" where
  "py_startswith s [] = True"
| "py_startswith [] (p # ps) = False"
| "py_startswith (c # cs) (p # ps) = (c = p \<and> py_startswith cs ps)"

text \<open>\<open>s.endswith(p)\<close>\<close>

definition py_endswith :: "'a list \<Rightarrow> 'a list \<Rightarrow> bool" where
  "py_endswith s p = py_startswith (rev s) (rev p)"

text \<open>\<open>sub in s\<close>: \<open>sub\<close> occurs in \<open>s\<close> as a contiguous block.\<close>

fun py_in :: "'a list \<Rightarrow> 'a list \<Rightarrow> bool" where
  "py_in sub [] = (sub = [])"
| "py_in sub (c # cs) = (py_startswith (c # cs) sub \<or> py_in sub cs)"

text \<open>
  \<open>s.count(sub)\<close>: the number of non-overlapping occurrences of \<open>sub\<close>, found from
  left to right; for the empty pattern it is \<open>len(s) + 1\<close>.
\<close>

fun count_scan :: "'a list \<Rightarrow> 'a list \<Rightarrow> nat" where
  "count_scan [] sub = 0"
| "count_scan (c # cs) sub =
     (if py_startswith (c # cs) sub
      then 1 + count_scan (drop (length sub - 1) cs) sub
      else count_scan cs sub)"

definition py_count :: "'a list \<Rightarrow> 'a list \<Rightarrow> nat" where
  "py_count s sub = (if sub = [] then length s + 1 else count_scan s sub)"

text \<open>
  \<open>s.replace(old, new)\<close>: every non-overlapping occurrence of \<open>old\<close>, found from left
  to right, is replaced by \<open>new\<close>; for the empty pattern \<open>new\<close> is put before every
  character and at the end.
\<close>

fun interleave :: "'a list \<Rightarrow> 'a list \<Rightarrow> 'a list" where
  "interleave new [] = new"
| "interleave new (c # cs) = new @ c # interleave new cs"

fun replace_scan :: "'a list \<Rightarrow> 'a list \<Rightarrow> 'a list \<Rightarrow> 'a list" where
  "replace_scan [] old new = []"
| "replace_scan (c # cs) old new =
     (if py_startswith (c # cs) old
      then new @ replace_scan (drop (length old - 1) cs) old new
      else c # replace_scan cs old new)"

definition py_replace :: "'a list \<Rightarrow> 'a list \<Rightarrow> 'a list \<Rightarrow> 'a list" where
  "py_replace s old new = (if old = [] then interleave new s else replace_scan s old new)"

text \<open>\<open>sep.join(xs)\<close>\<close>

fun py_join :: "'a list \<Rightarrow> 'a list list \<Rightarrow> 'a list" where
  "py_join sep [] = []"
| "py_join sep [x] = x"
| "py_join sep (x # y # ys) = x @ sep @ py_join sep (y # ys)"

text \<open>\<open>str(n)\<close> for a non-negative integer: its decimal digits.\<close>

definition digit_char :: "nat \<Rightarrow> char" where
  "digit_char d = ''0123456789'' ! d"

fun str_nat :: "nat \<Rightarrow> string" where
  "str_nat n = (if n < 10 then [digit_char n] else str_nat (n div 10) @ [digit_char (n mod 10)])"

declare str_nat.simps [simp del]

section \<open>The document object model\<close>

text \<open>
  The server works on the objects of the python-docx library. A run holds a text and a
  formatting, and a paragraph is a sequence of runs with a style. The text of a paragraph
  (\<open>paragraph.text\<close>) is the concatenation of the texts of its runs.

  A table owns its cells, each a sequence of paragraphs, and lays them out on a grid:
  every position of every row refers to one cell. A merged cell is one cell that several
  positions refer to, and \<open>row.cells\<close> hands it out once for each of them. The tables
  of a document are the ones of its body (\<open>doc.tables\<close>), and the paragraphs of a cell the
  ones directly in it (\<open>cell.paragraphs\<close>): a table inside a cell is not visited by the
  server and is left out.
\<close>

record run =
  run_text :: string
  run_format :: nat

datatype para_style = Normal | Heading int

record para =
  runs :: "run list"
  style :: para_style

type_synonym cell = "para list"

record table =
  cells :: "cell list"
  grid :: "nat list list"

record document =
  body :: "para list"
  tables :: "table list"
  heading_styles :: "int \<Rightarrow> bool"
  title :: string
  author :: string
  created :: "string option"
  modified :: "string option"

definition paragraph_text :: "para \<Rightarrow> string" where
  "paragraph_text p = concat (map run_text (runs p))"

text \<open>
  The exceptions that the library and the operating system raise inside the \<open>try\<close>
  blocks of the server.
\<close>

datatype fault =
    OpenFault string
  | SaveFault string
  | RenameFault string string
  | RunFault
  | TextFault string
  | StyleFault int
  | PropertyFault string

text \<open>
  Writing a text into the document. The library hands every stretch of characters to
  the XML layer, which raises on a control character (a code below 32 other than tab,
  newline and carriage return). A newline and a carriage return are both stored as a
  line break, and a line break reads back as a newline. So the text that \<open>run.text\<close>
  gives after an assignment is the assigned text with every carriage return turned
  into a newline.
\<close>

definition is_control :: "char \<Rightarrow> bool" where
  "is_control c = (let n = of_char c :: nat in n < 32 \<and> n \<noteq> 9 \<and> n \<noteq> 10 \<and> n \<noteq> 13)"

definition has_control :: "string \<Rightarrow> bool" where
  "has_control s = list_ex is_control s"

definition stored_text :: "string \<Rightarrow> string" where
  "stored_text s = map (\<lambda>c. if c = CHR 0x0D then CHR 0x0A else c) s"

text \<open>\<open>run.text = s\<close>\<close>

definition set_run_text :: "run \<Rightarrow> string \<Rightarrow> fault + run" where
  "set_run_text r s =
     (if has_control s then Inl (TextFault s) else Inr (r\<lparr>run_text := stored_text s\<rparr>))"

section \<open>The traversal of \<open>replace_text\<close>\<close>

text \<open>
  The loops of \<open>replace_text\<close> (lines 260 to 280) mutate the runs in place and add to
  the counter \<open>replacements\<close>. Each loop is a recursive function that takes the counter
  and returns the updated objects together with the new counter, or the exception that
  ended the loop.
\<close>

text \<open>
  \<open>for run in paragraph.runs: if find_text in run.text: ...\<close>. The count of line 269
  is taken in the text that \<open>run.text\<close> gives after the assignment of line 268.
\<close>

fun replace_in_runs ::
  "string \<Rightarrow> string \<Rightarrow> run list \<Rightarrow> nat \<Rightarrow> fault + (run list \<times> nat)" where
  "replace_in_runs find_text new_text [] replacements = Inr ([], replacements)"
| "replace_in_runs find_text new_text (r # rs) replacements =
     (if py_in find_text (run_text r)
      then (case set_run_text r (py_replace (run_text r) find_text new_text) of
              Inl e \<Rightarrow> Inl e
            | Inr r' \<Rightarrow>
                (case replace_in_runs find_text new_text rs
                        (replacements + py_count (run_text r') new_text) of
                   Inl e \<Rightarrow> Inl e
                 | Inr (rs', n) \<Rightarrow> Inr (r' # rs', n)))
      else (case replace_in_runs find_text new_text rs replacements of
              Inl e \<Rightarrow> Inl e
            | Inr (rs', n) \<Rightarrow> Inr (r # rs', n)))"

text \<open>\<open>if find_text in paragraph.text: for run in paragraph.runs: ...\<close>\<close>

definition replace_in_paragraph ::
  "string \<Rightarrow> string \<Rightarrow> para \<Rightarrow> nat \<Rightarrow> fault + (para \<times> nat)" where
  "replace_in_paragraph find_text new_text p replacements =
     (if py_in find_text (paragraph_text p)
      then (case replace_in_runs find_text new_text (runs p) replacements of
              Inl e \<Rightarrow> Inl e
            | Inr (rs', n) \<Rightarrow> Inr (p\<lparr>runs := rs'\<rparr>, n))
      else Inr (p, replacements))"

text \<open>\<open>for paragraph in ...paragraphs: ...\<close>, for the body and for a cell.\<close>

fun replace_in_paragraphs ::
  "string \<Rightarrow> string \<Rightarrow> para list \<Rightarrow> nat \<Rightarrow> fault + (para list \<times> nat)" where
  "replace_in_paragraphs find_text new_text [] replacements = Inr ([], replacements)"
| "replace_in_paragraphs find_text new_text (p # ps) replacements =
     (case replace_in_paragraph find_text new_text p replacements of
        Inl e \<Rightarrow> Inl e
      | Inr (p', n) \<Rightarrow>
          (case replace_in_paragraphs find_text new_text ps n of
             Inl e \<Rightarrow> Inl e
           | Inr (ps', n') \<Rightarrow> Inr (p' # ps', n')))"

text \<open>
  \<open>for cell in row.cells: for paragraph in cell.paragraphs: ...\<close>. A row is the list
  of the cells its positions refer to; the cells of the table are passed along, so that a
  cell met a second time is met as the first visit left it. A position always refers to
  a cell of the table; a reference to none is passed over.
\<close>

fun replace_in_cells ::
  "string \<Rightarrow> string \<Rightarrow> cell list \<Rightarrow> nat list \<Rightarrow> nat \<Rightarrow> fault + (cell list \<times> nat)" where
  "replace_in_cells find_text new_text cs [] replacements = Inr (cs, replacements)"
| "replace_in_cells find_text new_text cs (i # row) replacements =
     (if i < length cs
      then (case replace_in_paragraphs find_text new_text (cs ! i) replacements of
              Inl e \<Rightarrow> Inl e
            | Inr (c', n) \<Rightarrow> replace_in_cells find_text new_text (cs[i := c']) row n)
      else replace_in_cells find_text new_text cs row replacements)"

text \<open>\<open>for row in table.rows: ...\<close>\<close>

fun replace_in_rows ::
  "string \<Rightarrow> string \<Rightarrow> cell list \<Rightarrow> nat list list \<Rightarrow> nat \<Rightarrow> fault + (cell list \<times> nat)" where
  "replace_in_rows find_text new_text cs [] replacements = Inr (cs, replacements)"
| "replace_in_rows find_text new_text cs (row # rows) replacements =
     (case replace_in_cells find_text new_text cs row replacements of
        Inl e \<Rightarrow> Inl e
      | Inr (cs', n) \<Rightarrow> replace_in_rows find_text new_text cs' rows n)"

text \<open>\<open>for table in doc.tables: ...\<close>\<close>

fun replace_in_tables ::
  "string \<Rightarrow> string \<Rightarrow> table list \<Rightarrow> nat \<Rightarrow> fault + (table list \<times> nat)" where
  "replace_in_tables find_text new_text [] replacements = Inr ([], replacements)"
| "replace_in_tables find_text new_text (t # ts) replacements =
     (case replace_in_rows find_text new_text (cells t) (grid t) replacements of
        Inl e \<Rightarrow> Inl e
      | Inr (cs', n) \<Rightarrow>
          (case replace_in_tables find_text new_text ts n of
             Inl e \<Rightarrow> Inl e
           | Inr (ts', n') \<Rightarrow> Inr (t\<lparr>cells := cs'\<rparr> # ts', n')))"

text \<open>
  Lines 260 to 280 as a whole: the counter starts at 0, the body paragraphs come first,
  the tables second. The result is the mutated document and the final counter.
\<close>

definition replace_in_document ::
  "string \<Rightarrow> string \<Rightarrow> document \<Rightarrow> fault + (document \<times> nat)" where
  "replace_in_document find_text new_text doc =
     (case replace_in_paragraphs find_text new_text (body doc) 0 of
        Inl e \<Rightarrow> Inl e
      | Inr (body', n) \<Rightarrow>
          (case replace_in_tables find_text new_text (tables doc) n of
             Inl e \<Rightarrow> Inl e
           | Inr (tables', n') \<Rightarrow> Inr (doc\<lparr>body := body', tables := tables'\<rparr>, n')))"

section \<open>More string and path operations\<close>

definition quoted :: "string \<Rightarrow> string" where
  "quoted s = [CHR 0x27] @ s @ [CHR 0x27]"

definition str_int :: "int \<Rightarrow> string" where
  "str_int i = (if i < 0 then ''-'' @ str_nat (nat (- i)) else str_nat (nat i))"

text \<open>
  \<open>s.lower()\<close> and \<open>s.strip()\<close>. A character is a code point below 256; the letters
  \<open>A\<close> to \<open>Z\<close> are the ones with a lower-case form that the server's comparison with
  \<open>'.pdf'\<close> can see, and the white space of \<open>strip\<close> is the one of \<open>str.isspace\<close>.
\<close>

definition lower_char :: "char \<Rightarrow> char" where
  "lower_char c = (let n = of_char c :: nat in if 65 \<le> n \<and> n \<le> 90 then char_of (n + 32) else c)"

definition py_lower :: "string \<Rightarrow> string" where
  "py_lower s = map lower_char s"

definition is_space :: "char \<Rightarrow> bool" where
  "is_space c = (let n = of_char c :: nat in
     (9 \<le> n \<and> n \<le> 13) \<or> (28 \<le> n \<and> n \<le> 32) \<or> n = 133 \<or> n = 160)"

definition py_strip :: "string \<Rightarrow> string" where
  "py_strip s = dropWhile is_space (rev (dropWhile is_space (rev s)))"

text \<open>\<open>s.rfind(c)\<close> for a single character: the last index of \<open>c\<close>, or \<open>-1\<close>.\<close>

definition py_rfind :: "char \<Rightarrow> string \<Rightarrow> int" where
  "py_rfind c s =
     (if c \<in> set s then int (length s) - 1 - int (length (takeWhile (\<lambda>x. x \<noteq> c) (rev s)))
      else - 1)"

text \<open>The functions of \<open>os.path\<close>, as \<open>posixpath\<close> defines them.\<close>

definition dirname :: "string \<Rightarrow> string" where
  "dirname p =
     (let i = nat (py_rfind (CHR ''/'') p + 1);
          head = take i p
      in if head \<noteq> [] \<and> head \<noteq> replicate (length head) (CHR ''/'')
         then rev (dropWhile (\<lambda>x. x = CHR ''/'') (rev head))
         else head)"

definition basename :: "string \<Rightarrow> string" where
  "basename p = drop (nat (py_rfind (CHR ''/'') p + 1)) p"

definition splitext :: "string \<Rightarrow> string \<times> string" where
  "splitext p =
     (let sepIndex = py_rfind (CHR ''/'') p;
          dotIndex = py_rfind (CHR ''.'') p
      in if dotIndex > sepIndex
         then (let filenameIndex = sepIndex + 1
               in if list_ex (\<lambda>x. x \<noteq> CHR ''.'')
                       (take (nat (dotIndex - filenameIndex)) (drop (nat filenameIndex) p))
                  then (take (nat dotIndex) p, drop (nat dotIndex) p)
                  else (p, []))
         else (p, []))"

definition path_join :: "string \<Rightarrow> string \<Rightarrow> string" where
  "path_join a b =
     (if py_startswith b ''/'' then b
      else if a = [] \<or> py_endswith a ''/'' then a @ b
      else a @ ''/'' @ b)"

section \<open>The file system and the library calls\<close>

text \<open>
  A path names at most one file, which is a Word document or something else (a PDF, a
  directory, a damaged package). The state of the world also says at which paths a write
  fails, which document the library's default template holds, and which text \<open>str(e)\<close>
  gives for an exception. Two different path strings are two different files. A write
  that fails leaves the files as they were.
\<close>

type_synonym path = string

datatype node = Docx document | Other string

record world =
  files :: "path \<Rightarrow> node option"
  unwritable :: "path \<Rightarrow> bool"
  template :: document
  str_exc :: "fault \<Rightarrow> string"

text \<open>\<open>Document(filename)\<close> raises unless the file is a Word document.\<close>

definition Document :: "world \<Rightarrow> path \<Rightarrow> fault + document" where
  "Document w filename =
     (case files w filename of Some (Docx doc) \<Rightarrow> Inr doc | _ \<Rightarrow> Inl (OpenFault filename))"

text \<open>\<open>doc.save(filename)\<close>\<close>

definition save :: "world \<Rightarrow> document \<Rightarrow> path \<Rightarrow> fault + world" where
  "save w doc filename =
     (if unwritable w filename then Inl (SaveFault filename)
      else Inr (w\<lparr>files := (files w)(filename \<mapsto> Docx doc)\<rparr>))"

text \<open>\<open>os.rename(src, dst)\<close>\<close>

definition rename :: "world \<Rightarrow> path \<Rightarrow> path \<Rightarrow> fault + world" where
  "rename w src dst =
     (case files w src of
        None \<Rightarrow> Inl (RenameFault src dst)
      | Some f \<Rightarrow>
          if unwritable w dst then Inl (RenameFault src dst)
          else Inr (w\<lparr>files := ((files w)(src := None))(dst \<mapsto> f)\<rparr>))"

text \<open>
  \<open>doc.add_paragraph(text, style)\<close>: a new paragraph at the end of the body. A text
  that is not empty goes into one new run, as an assignment to \<open>run.text\<close> does; then
  a style that is given is looked up by name, which raises when the document does not
  define it. \<open>doc.add_heading(text, level)\<close> is this call with the style of the level.
\<close>

definition add_paragraph :: "document \<Rightarrow> string \<Rightarrow> para_style \<Rightarrow> fault + document" where
  "add_paragraph doc txt sty =
     (case (if txt = [] then Inr []
            else (case set_run_text \<lparr>run_text = [], run_format = 0\<rparr> txt of
                    Inl e \<Rightarrow> Inl e
                  | Inr r \<Rightarrow> Inr [r])) of
        Inl e \<Rightarrow> Inl e
      | Inr rs \<Rightarrow>
          (case sty of
             Normal \<Rightarrow> Inr (doc\<lparr>body := body doc @ [\<lparr>runs = rs, style = sty\<rparr>]\<rparr>)
           | Heading level \<Rightarrow>
               if heading_styles doc level
               then Inr (doc\<lparr>body := body doc @ [\<lparr>runs = rs, style = sty\<rparr>]\<rparr>)
               else Inl (StyleFault level)))"

definition doc_add_heading :: "document \<Rightarrow> string \<Rightarrow> int \<Rightarrow> fault + document" where
  "doc_add_heading doc txt level = add_paragraph doc txt (Heading level)"

text \<open>
  \<open>doc.core_properties.title = value\<close>, and the same for the author: the library
  refuses a value of more than 255 characters, and the XML layer a control character.
\<close>

definition set_core_property :: "string \<Rightarrow> fault + string" where
  "set_core_property v =
     (if length v > 255 \<or> has_control v then Inl (PropertyFault v) else Inr v)"

section \<open>The operations of the server\<close>

text \<open>
  Every operation takes the state of the world and returns the string it answers with
  and the state it leaves.
\<close>

definition ensure_docx_extension :: "string \<Rightarrow> string" where
  "ensure_docx_extension filename =
     (if \<not> py_endswith filename ''.docx'' then filename @ ''.docx'' else filename)"

definition check_file_exists :: "world \<Rightarrow> path \<Rightarrow> bool" where
  "check_file_exists w filename = (files w filename \<noteq> None)"

definition read_document :: "world \<Rightarrow> string \<Rightarrow> string \<times> world" where
  "read_document w filename0 =
     (let filename = ensure_docx_extension filename0
      in if \<not> check_file_exists w filename
         then (''Error: Document '' @ quoted filename @ '' does not exist'', w)
         else (case Document w filename of
                 Inl e \<Rightarrow> (''Error reading document: '' @ str_exc w e, w)
               | Inr doc \<Rightarrow>
                   (let text_content =
                          map paragraph_text
                            (filter (\<lambda>p. py_strip (paragraph_text p) \<noteq> []) (body doc))
                    in (py_join [CHR 0x0A] text_content, w))))"

text \<open>
  \<open>get_document_info\<close> collects the fields below and hands them to \<open>json.dumps\<close>. The
  size of the file in bytes (\<open>os.path.getsize\<close>) and the rendering, which includes the
  division by 1024 and the rounding, are parameters.
\<close>

record doc_info =
  info_filename :: string
  info_title :: string
  info_author :: string
  info_created :: string
  info_modified :: string
  paragraph_count :: nat
  table_count :: nat
  file_size :: nat

definition get_document_info ::
  "(world \<Rightarrow> path \<Rightarrow> nat) \<Rightarrow> (doc_info \<Rightarrow> string) \<Rightarrow> world \<Rightarrow> string \<Rightarrow> string \<times> world" where
  "get_document_info getsize json_dumps w filename0 =
     (let filename = ensure_docx_extension filename0
      in if \<not> check_file_exists w filename
         then (''Error: Document '' @ quoted filename @ '' does not exist'', w)
         else (case Document w filename of
                 Inl e \<Rightarrow> (''Error getting document info: '' @ str_exc w e, w)
               | Inr doc \<Rightarrow>
                   (let info = \<lparr>info_filename = filename,
                          info_title = (if title doc \<noteq> [] then title doc else ''Untitled''),
                          info_author = (if author doc \<noteq> [] then author doc else ''Unknown''),
                          info_created = (case created doc of Some t \<Rightarrow> t | None \<Rightarrow> ''Unknown''),
                          info_modified = (case modified doc of Some t \<Rightarrow> t | None \<Rightarrow> ''Unknown''),
                          paragraph_count = length (body doc),
                          table_count = length (tables doc),
                          file_size = getsize w filename\<rparr>
                    in (json_dumps info, w))))"

definition copy_document :: "world \<Rightarrow> string \<Rightarrow> string \<Rightarrow> string \<times> world" where
  "copy_document w source_filename0 target_filename0 =
     (let source_filename = ensure_docx_extension source_filename0;
          target_filename = ensure_docx_extension target_filename0
      in if \<not> check_file_exists w source_filename
         then (''Error: Source document '' @ quoted source_filename @ '' does not exist'', w)
         else if check_file_exists w target_filename
         then (''Error: Target document '' @ quoted target_filename @ '' already exists'', w)
         else (case Document w source_filename of
                 Inl e \<Rightarrow> (''Error copying document: '' @ str_exc w e, w)
               | Inr source_doc \<Rightarrow>
                   (case save w source_doc target_filename of
                      Inl e \<Rightarrow> (''Error copying document: '' @ str_exc w e, w)
                    | Inr w' \<Rightarrow>
                        (''Document copied successfully from '' @ quoted source_filename
                           @ '' to '' @ quoted target_filename, w'))))"

text \<open>\<open>if title:\<close> holds for an argument that is given and not empty.\<close>

definition truthy :: "string option \<Rightarrow> bool" where
  "truthy a = (case a of None \<Rightarrow> False | Some s \<Rightarrow> s \<noteq> [])"

definition create_document ::
  "world \<Rightarrow> string \<Rightarrow> string option \<Rightarrow> string option \<Rightarrow> string \<times> world" where
  "create_document w filename0 title_arg author_arg =
     (let filename = ensure_docx_extension filename0;
          doc0 = template w
      in case (if truthy title_arg
               then (case set_core_property (the title_arg) of
                       Inl e \<Rightarrow> Inl e
                     | Inr v \<Rightarrow> Inr (doc0\<lparr>title := v\<rparr>))
               else Inr doc0) of
           Inl e \<Rightarrow> (''Error creating document: '' @ str_exc w e, w)
         | Inr doc1 \<Rightarrow>
             (case (if truthy author_arg
                    then (case set_core_property (the author_arg) of
                            Inl e \<Rightarrow> Inl e
                          | Inr v \<Rightarrow> Inr (doc1\<lparr>author := v\<rparr>))
                    else Inr doc1) of
                Inl e \<Rightarrow> (''Error creating document: '' @ str_exc w e, w)
              | Inr doc2 \<Rightarrow>
                  (case save w doc2 filename of
                     Inl e \<Rightarrow> (''Error creating document: '' @ str_exc w e, w)
                   | Inr w' \<Rightarrow>
                       (''Document '' @ quoted filename @ '' created successfully'', w'))))"

definition write_text :: "world \<Rightarrow> string \<Rightarrow> string \<Rightarrow> bool \<Rightarrow> string \<times> world" where
  "write_text w filename0 txt append_flag =
     (let filename = ensure_docx_extension filename0
      in case (if append_flag \<and> check_file_exists w filename then Document w filename
               else Inr (template w)) of
           Inl e \<Rightarrow> (''Error writing to document: '' @ str_exc w e, w)
         | Inr doc \<Rightarrow>
             (case add_paragraph doc txt Normal of
                Inl e \<Rightarrow> (''Error writing to document: '' @ str_exc w e, w)
              | Inr doc' \<Rightarrow>
                  (case save w doc' filename of
                     Inl e \<Rightarrow> (''Error writing to document: '' @ str_exc w e, w)
                   | Inr w' \<Rightarrow>
                       (let action = (if append_flag \<and> check_file_exists w' filename
                                      then ''appended to'' else ''written to'')
                        in (''Text '' @ action @ '' '' @ quoted filename @ '' successfully'',
                            w')))))"

definition add_heading :: "world \<Rightarrow> string \<Rightarrow> string \<Rightarrow> int \<Rightarrow> string \<times> world" where
  "add_heading w filename0 txt level =
     (let filename = ensure_docx_extension filename0
      in if level < 1 \<or> level > 6
         then (''Error: Heading level must be between 1 and 6'', w)
         else (case (if check_file_exists w filename then Document w filename
                     else Inr (template w)) of
                 Inl e \<Rightarrow> (''Error adding heading: '' @ str_exc w e, w)
               | Inr doc \<Rightarrow>
                   (case doc_add_heading doc txt level of
                      Inl e \<Rightarrow> (''Error adding heading: '' @ str_exc w e, w)
                    | Inr doc' \<Rightarrow>
                        (case save w doc' filename of
                           Inl e \<Rightarrow> (''Error adding heading: '' @ str_exc w e, w)
                         | Inr w' \<Rightarrow>
                             (''Heading '' @ quoted txt @ '' (level '' @ str_int level
                                @ '') added to '' @ quoted filename, w')))))"

definition replace_text :: "world \<Rightarrow> string \<Rightarrow> string \<Rightarrow> string \<Rightarrow> string \<times> world" where
  "replace_text w filename0 find_text new_text =
     (let filename = ensure_docx_extension filename0
      in if \<not> check_file_exists w filename
         then (''Error: Document '' @ quoted filename @ '' does not exist'', w)
         else (case Document w filename of
                 Inl e \<Rightarrow> (''Error replacing text: '' @ str_exc w e, w)
               | Inr doc \<Rightarrow>
                   (case replace_in_document find_text new_text doc of
                      Inl e \<Rightarrow> (''Error replacing text: '' @ str_exc w e, w)
                    | Inr (doc', replacements) \<Rightarrow>
                        if replacements > 0
                        then (case save w doc' filename of
                                Inl e \<Rightarrow> (''Error replacing text: '' @ str_exc w e, w)
                              | Inr w' \<Rightarrow>
                                  (''Replaced '' @ str_nat replacements
                                     @ '' occurrence(s) of '' @ quoted find_text
                                     @ '' with '' @ quoted new_text, w'))
                        else (''No occurrences of '' @ quoted find_text @ '' found'', w))))"

text \<open>
  \<open>export_to_pdf\<close>. The conversion is an external process: \<open>subprocess.run\<close> is a
  parameter that takes the command line and answers with an exception or a completed
  process, and with the state of the world the process leaves.
\<close>

record completed =
  returncode :: int
  stdout :: string
  stderr :: string

type_synonym runner = "world \<Rightarrow> string list \<Rightarrow> (fault + completed) \<times> world"

text \<open>Lines 308 to 314: the target path.\<close>

definition target_path_of :: "string \<Rightarrow> string option \<Rightarrow> string" where
  "target_path_of source_path target_filename =
     (case target_filename of
        None \<Rightarrow> py_replace source_path ''.docx'' ''.pdf''
      | Some t \<Rightarrow> (if \<not> py_endswith (py_lower t) ''.pdf'' then t @ ''.pdf'' else t))"

text \<open>Line 316, and lines 334 and 335: the directory and the path the converter writes to.\<close>

definition output_dir_of :: "string \<Rightarrow> string" where
  "output_dir_of target_path = (if dirname target_path \<noteq> [] then dirname target_path else ''.'')"

definition converted_path_of :: "string \<Rightarrow> string \<Rightarrow> string" where
  "converted_path_of source_path output_dir =
     (let source_base = fst (splitext (basename source_path))
      in path_join output_dir (source_base @ ''.pdf''))"

definition export_to_pdf :: "runner \<Rightarrow> world \<Rightarrow> string \<Rightarrow> string option \<Rightarrow> string \<times> world" where
  "export_to_pdf subprocess_run w source_filename target_filename =
     (let source_path = ensure_docx_extension source_filename
      in if \<not> check_file_exists w source_path
         then (''Error: Source document '' @ quoted source_path @ '' does not exist'', w)
         else
           (let target_path = target_path_of source_path target_filename;
                output_dir = output_dir_of target_path;
                cmd = [''soffice'', ''--headless'', ''--convert-to'', ''pdf'', source_path,
                       ''--outdir'', output_dir]
            in case subprocess_run w cmd of
                 (Inl e, w') \<Rightarrow> (''Error during PDF conversion: '' @ str_exc w e, w')
               | (Inr result, w') \<Rightarrow>
                   if returncode result \<noteq> 0
                   then (let error_msg = (if py_strip (stderr result) \<noteq> []
                                          then py_strip (stderr result)
                                          else py_strip (stdout result))
                         in (''Conversion failed: '' @ error_msg, w'))
                   else
                     (let converted_path = converted_path_of source_path output_dir
                      in if converted_path \<noteq> target_path
                         then (if check_file_exists w' target_path
                               then (''Error: Target file '' @ quoted target_path
                                       @ '' already exists'', w')
                               else (case rename w' converted_path target_path of
                                       Inl e \<Rightarrow>
                                         (''Error during PDF conversion: '' @ str_exc w e, w')
                                     | Inr w'' \<Rightarrow>
                                         (''Document converted to PDF: '' @ quoted target_path,
                                          w'')))
                         else (''Document converted to PDF: '' @ quoted target_path, w'))))"

section \<open>What the specification says \<open>replace_text\<close> counts\<close>

text \<open>
  The paragraphs the traversal visits: the body paragraphs in order, then, table by
  table and row by row, the paragraphs of the cell at every position of the grid; and the
  runs of those paragraphs.
\<close>

definition table_cells :: "table \<Rightarrow> cell list" where
  "table_cells t =
     map (\<lambda>i. cells t ! i) (filter (\<lambda>i. i < length (cells t)) (concat (grid t)))"

definition table_paragraphs :: "table \<Rightarrow> para list" where
  "table_paragraphs t = concat (table_cells t)"

definition all_paragraphs :: "document \<Rightarrow> para list" where
  "all_paragraphs doc = body doc @ concat (map table_paragraphs (tables doc))"

definition all_runs :: "document \<Rightarrow> run list" where
  "all_runs doc = concat (map runs (all_paragraphs doc))"

text \<open>A document without merged cells: no two positions of a grid refer to the same cell.\<close>

definition unmerged :: "document \<Rightarrow> bool" where
  "unmerged doc = list_all (\<lambda>t. distinct (concat (grid t))) (tables doc)"

text \<open>
  The count as the specification words it: for a run, the occurrences of the
  replacement in the run's text with every occurrence of \<open>find_text\<close> substituted; for
  a list of paragraphs, the sum over the paragraphs whose text contains \<open>find_text\<close>
  and over their runs whose own text contains \<open>find_text\<close>.
\<close>

definition claimed_run_score :: "string \<Rightarrow> string \<Rightarrow> run \<Rightarrow> nat" where
  "claimed_run_score find_text new_text r =
     py_count (py_replace (run_text r) find_text new_text) new_text"

definition claimed_count :: "string \<Rightarrow> string \<Rightarrow> para list \<Rightarrow> nat" where
  "claimed_count find_text new_text ps =
     sum_list (map (\<lambda>p. sum_list (map (claimed_run_score find_text new_text)
                          (filter (\<lambda>r. py_in find_text (run_text r)) (runs p))))
       (filter (\<lambda>p. py_in find_text (paragraph_text p)) ps))"

text \<open>
  The same sum with the occurrences counted in the text as the library gives it back
  after the substitution.
\<close>

definition run_score :: "string \<Rightarrow> string \<Rightarrow> run \<Rightarrow> nat" where
  "run_score find_text new_text r =
     py_count (stored_text (py_replace (run_text r) find_text new_text)) new_text"

definition paragraph_score :: "string \<Rightarrow> string \<Rightarrow> para \<Rightarrow> nat" where
  "paragraph_score find_text new_text p =
     sum_list (map (run_score find_text new_text)
       (filter (\<lambda>r. py_in find_text (run_text r)) (runs p)))"

definition paragraphs_score :: "string \<Rightarrow> string \<Rightarrow> para list \<Rightarrow> nat" where
  "paragraphs_score find_text new_text ps =
     sum_list (map (paragraph_score find_text new_text)
       (filter (\<lambda>p. py_in find_text (paragraph_text p)) ps))"

definition expected_count :: "string \<Rightarrow> string \<Rightarrow> document \<Rightarrow> nat" where
  "expected_count find_text new_text doc = paragraphs_score find_text new_text (all_paragraphs doc)"

text \<open>A run whose substitution the library accepts.\<close>

definition run_ok :: "string \<Rightarrow> string \<Rightarrow> run \<Rightarrow> bool" where
  "run_ok find_text new_text r =
     (py_in find_text (run_text r) \<longrightarrow> \<not> has_control (py_replace (run_text r) find_text new_text))"

text \<open>A cell all of whose runs have a substitution that the library accepts.\<close>

definition cell_ok :: "string \<Rightarrow> string \<Rightarrow> cell \<Rightarrow> bool" where
  "cell_ok f new c = (\<forall>p\<in>set c. \<forall>r\<in>set (runs p). run_ok f new r)"

text \<open>
  The document in which every body paragraph, and every paragraph of every cell on a
  grid, has been rewritten by \<open>h\<close>; and the one in which every run of those paragraphs
  has been rewritten by \<open>g\<close>.
\<close>

definition map_cells :: "(para \<Rightarrow> para) \<Rightarrow> table \<Rightarrow> table" where
  "map_cells h t =
     t\<lparr>cells := map (\<lambda>j. if j \<in> set (concat (grid t)) then map h (cells t ! j) else cells t ! j)
                  [0..<length (cells t)]\<rparr>"

definition map_paragraphs :: "(para \<Rightarrow> para) \<Rightarrow> document \<Rightarrow> document" where
  "map_paragraphs h doc = doc\<lparr>body := map h (body doc), tables := map (map_cells h) (tables doc)\<rparr>"



text \<open>What the traversal makes of a run and of a paragraph when no exception is raised.\<close>

definition rewrite_run :: "string \<Rightarrow> string \<Rightarrow> run \<Rightarrow> run" where
  "rewrite_run find_text new_text r =
     (if py_in find_text (run_text r)
      then r\<lparr>run_text := stored_text (py_replace (run_text r) find_text new_text)\<rparr>
      else r)"

definition rewrite_paragraph :: "string \<Rightarrow> string \<Rightarrow> para \<Rightarrow> para" where
  "rewrite_paragraph find_text new_text p =
     (if py_in find_text (paragraph_text p)
      then p\<lparr>runs := map (rewrite_run find_text new_text) (runs p)\<rparr>
      else p)"



text \<open>A text that has a character which is not white space.\<close>

definition nonblank :: "string \<Rightarrow> bool" where
  "nonblank t = (\<exists>c\<in>set t. \<not> is_space c)"

section \<open>Example documents and file systems\<close>

definition plain :: "string \<Rightarrow> run" where
  "plain s = \<lparr>run_text = s, run_format = 0\<rparr>"

definition blank_document :: document where
  "blank_document =
     \<lparr>body = [], tables = [], heading_styles = (\<lambda>level. True), title = [], author = [],
      created = None, modified = None\<rparr>"

definition world_of :: "(path \<Rightarrow> node option) \<Rightarrow> world" where
  "world_of fs = \<lparr>files = fs, unwritable = (\<lambda>p. False), template = blank_document,
     str_exc = (\<lambda>e. ''fault'')\<rparr>"

text \<open>
  A report whose first run already holds the word \<open>sample\<close>, whose second paragraph
  has the word \<open>test\<close> split over two runs, and which has one table with one cell.
\<close>

definition report_doc :: document where
  "report_doc = blank_document
     \<lparr>body := [\<lparr>runs = [plain ''a sample test'', plain '' of tests''], style = Normal\<rparr>,
               \<lparr>runs = [plain ''te'', plain ''st''], style = Normal\<rparr>],
      tables := [\<lparr>cells = [[\<lparr>runs = [plain ''test''], style = Normal\<rparr>]], grid = [[0]]\<rparr>]\<rparr>"

definition report_world :: world where
  "report_world = world_of (Map.empty(''report.docx'' \<mapsto> Docx report_doc))"

text \<open>
  A document whose table has one row with two positions that are one merged cell, which
  reads \<open>x\<close>; and a document whose only paragraph reads \<open>axa\<close>.
\<close>

definition merged_doc :: document where
  "merged_doc = blank_document
     \<lparr>tables := [\<lparr>cells = [[\<lparr>runs = [plain ''x''], style = Normal\<rparr>]], grid = [[0, 0]]\<rparr>]\<rparr>"

definition axa_doc :: document where
  "axa_doc = blank_document\<lparr>body := [\<lparr>runs = [plain ''axa''], style = Normal\<rparr>]\<rparr>"

definition tricky_world :: world where
  "tricky_world = world_of (Map.empty
     (''merged.docx'' \<mapsto> Docx merged_doc, ''axa.docx'' \<mapsto> Docx axa_doc))"

text \<open>A memo whose only paragraph reads \<open>hello world\<close>, split after \<open>hel\<close>.\<close>

definition split_doc :: document where
  "split_doc = blank_document
     \<lparr>body := [\<lparr>runs = [plain ''hel'', plain ''lo world''], style = Normal\<rparr>]\<rparr>"

definition split_world :: world where
  "split_world = world_of (Map.empty(''memo.docx'' \<mapsto> Docx split_doc))"



text \<open>A directory that holds \<open>final.docx\<close> and nothing else.\<close>

definition shelf_world :: world where
  "shelf_world = world_of (Map.empty(''final.docx'' \<mapsto> Docx split_doc))"

text \<open>
  Notes with a paragraph that holds one space and a paragraph without runs between two
  paragraphs with text.
\<close>

definition blank_line_doc :: document where
  "blank_line_doc = blank_document
     \<lparr>body := [\<lparr>runs = [plain ''first''], style = Normal\<rparr>,
               \<lparr>runs = [plain '' ''], style = Normal\<rparr>,
               \<lparr>runs = [], style = Normal\<rparr>,
               \<lparr>runs = [plain ''sec'', plain ''ond''], style = Heading 1\<rparr>]\<rparr>"

definition blank_line_world :: world where
  "blank_line_world = world_of (Map.empty(''notes.docx'' \<mapsto> Docx blank_line_doc))"

text \<open>
  A converter that succeeds and writes the PDF where LibreOffice does: in the output
  directory, under the base name of the source.
\<close>

definition office :: runner where
  "office w cmd =
     (Inr \<lparr>returncode = 0, stdout = [], stderr = []\<rparr>,
      w\<lparr>files := (files w)
           (path_join (cmd ! 6) (fst (splitext (basename (cmd ! 4))) @ ''.pdf'')
              \<mapsto> Other ''new pdf'')\<rparr>)"

text \<open>A directory with two documents and the PDF of an earlier export.\<close>

definition docs_world :: world where
  "docs_world = world_of (Map.empty
     (''docs/a.docx'' \<mapsto> Docx split_doc,
      ''docs/b.docx'' \<mapsto> Docx report_doc,
      ''docs/a.pdf'' \<mapsto> Other ''old pdf''))"

text \<open>A document whose name has the extension twice.\<close>

definition archive_world :: world where
  "archive_world = world_of (Map.empty(''a.docx.docx'' \<mapsto> Docx split_doc))"


section \<open>The string tests and the notions of the list library\<close>

lemma py_startswith_prefix: "py_startswith s p = prefix p s"
  by (induction s p rule: py_startswith.induct) auto

lemma py_in_sublist: "py_in sub s = sublist sub s"
  by (induction s) (simp_all add: sublist_Cons_right py_startswith_prefix)

lemma py_endswith_suffix: "py_endswith s p = suffix p s"
  by (simp add: py_endswith_def py_startswith_prefix suffix_to_prefix)

section \<open>The count of \<open>replace_text\<close>\<close>

lemma paragraphs_score_append:
  "paragraphs_score f new (ps @ qs) = paragraphs_score f new ps + paragraphs_score f new qs"
  by (simp add: paragraphs_score_def)

lemma paragraphs_score_Nil: "paragraphs_score f new [] = 0"
  by (simp add: paragraphs_score_def)

lemma paragraphs_score_Cons:
  "paragraphs_score f new (p # ps) = paragraphs_score f new [p] + paragraphs_score f new ps"
  using paragraphs_score_append [of f new "[p]" ps] by simp

lemma paragraphs_score_concat:
  "paragraphs_score f new (concat cs) = sum_list (map (paragraphs_score f new) cs)"
  by (induction cs) (simp_all add: paragraphs_score_Nil paragraphs_score_append)

lemma replace_in_runs_result:
  "\<forall>r\<in>set rs. run_ok f new r \<Longrightarrow>
   replace_in_runs f new rs n =
     Inr (map (rewrite_run f new) rs,
          n + sum_list (map (run_score f new) (filter (\<lambda>r. py_in f (run_text r)) rs)))"
  by (induction rs arbitrary: n)
     (simp_all add: run_ok_def set_run_text_def rewrite_run_def run_score_def)

lemma replace_in_paragraph_result:
  "\<forall>r\<in>set (runs p). run_ok f new r \<Longrightarrow>
   replace_in_paragraph f new p n =
     Inr (rewrite_paragraph f new p, n + paragraphs_score f new [p])"
  by (simp add: replace_in_paragraph_def replace_in_runs_result rewrite_paragraph_def
      paragraphs_score_def paragraph_score_def)

lemma replace_in_paragraphs_result:
  "\<forall>p\<in>set ps. \<forall>r\<in>set (runs p). run_ok f new r \<Longrightarrow>
   replace_in_paragraphs f new ps n =
     Inr (map (rewrite_paragraph f new) ps, n + paragraphs_score f new ps)"
proof (induction ps arbitrary: n)
  case Nil
  show ?case by (simp add: paragraphs_score_Nil)
next
  case (Cons p ps)
  have a: "\<forall>r\<in>set (runs p). run_ok f new r" using Cons.prems by simp
  have b: "\<forall>p\<in>set ps. \<forall>r\<in>set (runs p). run_ok f new r" using Cons.prems by simp
  show ?case
    using paragraphs_score_Cons [of f new p ps]
    by (simp add: replace_in_paragraph_result [OF a] Cons.IH [OF b])
qed

lemma replace_in_cells_result:
  assumes "distinct row"
    and "\<forall>i\<in>set row. i < length cs \<longrightarrow> cell_ok f new (cs ! i)"
  shows "replace_in_cells f new cs row n =
     Inr (map (\<lambda>j. if j \<in> set row then map (rewrite_paragraph f new) (cs ! j) else cs ! j)
            [0..<length cs],
          n + sum_list (map (\<lambda>i. paragraphs_score f new (cs ! i))
                 (filter (\<lambda>i. i < length cs) row)))"
  using assms
proof (induction row arbitrary: cs n)
  case Nil
  show ?case by (simp add: map_nth)
next
  case (Cons i row)
  have d: "distinct row" and ni: "i \<notin> set row" using Cons.prems(1) by simp_all
  show ?case
  proof (cases "i < length cs")
    case False
    have ok: "\<forall>k\<in>set row. k < length cs \<longrightarrow> cell_ok f new (cs ! k)"
      using Cons.prems(2) by simp
    have "map (\<lambda>j. if j \<in> set row then map (rewrite_paragraph f new) (cs ! j) else cs ! j)
            [0..<length cs] =
          map (\<lambda>j. if j \<in> set (i # row) then map (rewrite_paragraph f new) (cs ! j) else cs ! j)
            [0..<length cs]"
      using False by (intro map_cong) auto
    with False show ?thesis
      by (simp add: Cons.IH [OF d ok])
  next
    case True
    let ?c = "map (rewrite_paragraph f new) (cs ! i)"
    let ?cs = "cs[i := ?c]"
    have oki: "\<forall>p\<in>set (cs ! i). \<forall>r\<in>set (runs p). run_ok f new r"
      using Cons.prems(2) True by (simp add: cell_ok_def)
    have same: "k \<in> set row \<Longrightarrow> ?cs ! k = cs ! k" for k
      using ni by (metis nth_list_update_neq)
    have ok: "\<forall>k\<in>set row. k < length ?cs \<longrightarrow> cell_ok f new (?cs ! k)"
      using Cons.prems(2) same by simp
    have m: "map (\<lambda>j. if j \<in> set row then map (rewrite_paragraph f new) (?cs ! j) else ?cs ! j)
            [0..<length ?cs] =
          map (\<lambda>j. if j \<in> set (i # row) then map (rewrite_paragraph f new) (cs ! j) else cs ! j)
            [0..<length cs]"
      using True same ni by (auto intro!: map_cong simp: nth_list_update)
    have s: "map (\<lambda>k. paragraphs_score f new (?cs ! k)) (filter (\<lambda>k. k < length ?cs) row) =
             map (\<lambda>k. paragraphs_score f new (cs ! k)) (filter (\<lambda>k. k < length cs) row)"
      using same by (auto intro!: map_cong)
    have step: "replace_in_cells f new cs (i # row) n =
                replace_in_cells f new ?cs row (n + paragraphs_score f new (cs ! i))"
      using True by (simp add: replace_in_paragraphs_result [OF oki])
    have ih: "replace_in_cells f new ?cs row (n + paragraphs_score f new (cs ! i)) =
        Inr (map (\<lambda>j. if j \<in> set row then map (rewrite_paragraph f new) (?cs ! j) else ?cs ! j)
               [0..<length ?cs],
             n + paragraphs_score f new (cs ! i) +
               sum_list (map (\<lambda>k. paragraphs_score f new (?cs ! k))
                 (filter (\<lambda>k. k < length ?cs) row)))"
      by (rule Cons.IH [OF d ok])
    show ?thesis
      by (simp only: step ih m s) (simp add: True)
  qed
qed

lemma replace_in_cells_append:
  "replace_in_cells f new cs (xs @ ys) n =
     (case replace_in_cells f new cs xs n of
        Inl e \<Rightarrow> Inl e
      | Inr (cs', n') \<Rightarrow> replace_in_cells f new cs' ys n')"
  by (induction xs arbitrary: cs n) (simp_all split: sum.splits prod.splits)

lemma replace_in_rows_concat:
  "replace_in_rows f new cs rows n = replace_in_cells f new cs (concat rows) n"
  by (induction rows arbitrary: cs n)
     (simp_all add: replace_in_cells_append split: sum.splits prod.splits)

lemma table_score:
  "sum_list (map (\<lambda>i. paragraphs_score f new (cells t ! i))
     (filter (\<lambda>i. i < length (cells t)) (concat (grid t)))) =
   paragraphs_score f new (table_paragraphs t)"
  by (simp add: table_paragraphs_def table_cells_def paragraphs_score_concat comp_def)

lemma replace_in_table_result:
  assumes "distinct (concat (grid t))"
    and "\<forall>c\<in>set (table_cells t). cell_ok f new c"
  shows "replace_in_rows f new (cells t) (grid t) n =
     Inr (cells (map_cells (rewrite_paragraph f new) t),
          n + paragraphs_score f new (table_paragraphs t))"
proof -
  have ok: "\<forall>i\<in>set (concat (grid t)). i < length (cells t) \<longrightarrow> cell_ok f new (cells t ! i)"
    using assms(2) by (auto simp: table_cells_def)
  show ?thesis
    using replace_in_cells_result [OF assms(1) ok, of n] table_score [of f new t]
    by (simp add: replace_in_rows_concat map_cells_def)
qed

lemma replace_in_tables_result:
  assumes "\<forall>t\<in>set ts. distinct (concat (grid t))"
    and "\<forall>t\<in>set ts. \<forall>c\<in>set (table_cells t). cell_ok f new c"
  shows "replace_in_tables f new ts n =
     Inr (map (map_cells (rewrite_paragraph f new)) ts,
          n + paragraphs_score f new (concat (map table_paragraphs ts)))"
  using assms
proof (induction ts arbitrary: n)
  case Nil
  show ?case by (simp add: paragraphs_score_Nil)
next
  case (Cons t ts)
  have a: "distinct (concat (grid t))" and b: "\<forall>c\<in>set (table_cells t). cell_ok f new c"
    using Cons.prems by simp_all
  have c: "\<forall>t\<in>set ts. distinct (concat (grid t))"
    and d: "\<forall>t\<in>set ts. \<forall>c\<in>set (table_cells t). cell_ok f new c"
    using Cons.prems by simp_all
  have e: "t\<lparr>cells := cells (map_cells (rewrite_paragraph f new) t)\<rparr> =
           map_cells (rewrite_paragraph f new) t"
    by (simp add: map_cells_def)
  show ?case
    by (simp add: replace_in_table_result [OF a b] Cons.IH [OF c d] e paragraphs_score_append)
qed

lemma replace_in_document_result:
  assumes "unmerged doc" and "\<forall>r\<in>set (all_runs doc). run_ok f new r"
  shows "replace_in_document f new doc =
     Inr (map_paragraphs (rewrite_paragraph f new) doc, expected_count f new doc)"
proof -
  have b: "\<forall>p\<in>set (body doc). \<forall>r\<in>set (runs p). run_ok f new r"
    using assms(2) by (auto simp: all_runs_def all_paragraphs_def)
  have t: "\<forall>t\<in>set (tables doc). \<forall>c\<in>set (table_cells t). cell_ok f new c"
    using assms(2) by (auto simp: all_runs_def all_paragraphs_def table_paragraphs_def cell_ok_def)
  have u: "\<forall>t\<in>set (tables doc). distinct (concat (grid t))"
    using assms(1) by (simp add: unmerged_def list_all_iff)
  show ?thesis
    by (simp add: replace_in_document_def replace_in_paragraphs_result [OF b]
        replace_in_tables_result [OF u t] map_paragraphs_def expected_count_def
        all_paragraphs_def paragraphs_score_append)
qed


text \<open>
  Claim C1, amended. For a document without merged cells, and arguments for which the
  library accepts the text of every run after the substitution (no control character),
  the counter that \<open>replace_text\<close> ends with is the sum over every paragraph (the body
  paragraphs in order, then the paragraphs of every cell of every table) whose text
  contains \<open>find_text\<close>, and over every run of that paragraph whose own text contains
  \<open>find_text\<close>, of the number of occurrences of the replacement in the run's text as
  the library gives it back after the substitution, a carriage return having become a
  newline. On a file that can be saved the answer of \<open>replace_text\<close> carries exactly
  this number, or says that there is no occurrence when the number is 0.
\<close>

theorem replace_text_count:
  assumes "unmerged doc" and "list_all (run_ok find_text new_text) (all_runs doc)"
  shows "(\<exists>doc'. replace_in_document find_text new_text doc =
            Inr (doc', expected_count find_text new_text doc)) \<and>
   (files w (ensure_docx_extension filename) = Some (Docx doc) \<longrightarrow>
    \<not> unwritable w (ensure_docx_extension filename) \<longrightarrow>
    fst (replace_text w filename find_text new_text) =
      (if expected_count find_text new_text doc > 0
       then ''Replaced '' @ str_nat (expected_count find_text new_text doc)
              @ '' occurrence(s) of '' @ quoted find_text @ '' with '' @ quoted new_text
       else ''No occurrences of '' @ quoted find_text @ '' found''))"
proof -
  have ok: "\<forall>r\<in>set (all_runs doc). run_ok find_text new_text r"
    using assms(2) by (simp add: list_all_iff)
  note r = replace_in_document_result [OF assms(1) ok]
  show ?thesis
    by (auto simp: r replace_text_def check_file_exists_def Document_def save_def)
qed

lemma report_expected: "expected_count ''test'' ''sample'' report_doc = 4"
  by (simp add: expected_count_def all_paragraphs_def table_paragraphs_def table_cells_def
      paragraphs_score_def paragraph_score_def run_score_def paragraph_text_def py_count_def
      py_replace_def stored_text_def report_doc_def blank_document_def plain_def)

lemma ensure_report: "ensure_docx_extension ''report'' = ''report.docx''"
  by (simp add: ensure_docx_extension_def py_endswith_def)

theorem replace_text_count_witness:
  "unmerged report_doc \<and>
   list_all (run_ok ''test'' ''sample'') (all_runs report_doc) \<and>
   replace_in_document ''test'' ''sample'' report_doc =
     Inr (report_doc
            \<lparr>body := [\<lparr>runs = [plain ''a sample sample'', plain '' of samples''], style = Normal\<rparr>,
                      \<lparr>runs = [plain ''te'', plain ''st''], style = Normal\<rparr>],
             tables := [\<lparr>cells = [[\<lparr>runs = [plain ''sample''], style = Normal\<rparr>]],
                         grid = [[0]]\<rparr>]\<rparr>, 4) \<and>
   fst (replace_text report_world ''report'' ''test'' ''sample'') =
     ''Replaced 4 occurrence(s) of '' @ quoted ''test'' @ '' with '' @ quoted ''sample''"
proof -
  have u: "unmerged report_doc"
    by (simp add: unmerged_def report_doc_def blank_document_def)
  have ok: "list_all (run_ok ''test'' ''sample'') (all_runs report_doc)"
    by (simp add: all_runs_def all_paragraphs_def table_paragraphs_def table_cells_def
        run_ok_def has_control_def is_control_def py_replace_def report_doc_def
        blank_document_def plain_def)
  have d: "replace_in_document ''test'' ''sample'' report_doc =
     Inr (report_doc
            \<lparr>body := [\<lparr>runs = [plain ''a sample sample'', plain '' of samples''], style = Normal\<rparr>,
                      \<lparr>runs = [plain ''te'', plain ''st''], style = Normal\<rparr>],
             tables := [\<lparr>cells = [[\<lparr>runs = [plain ''sample''], style = Normal\<rparr>]],
                         grid = [[0]]\<rparr>]\<rparr>, 4)"
    by (simp add: replace_in_document_def replace_in_paragraph_def paragraph_text_def
        set_run_text_def has_control_def is_control_def stored_text_def py_replace_def
        py_count_def report_doc_def blank_document_def plain_def)
  have f: "files report_world (ensure_docx_extension ''report'') = Some (Docx report_doc)"
    "\<not> unwritable report_world (ensure_docx_extension ''report'')"
    by (simp_all add: ensure_report report_world_def world_of_def)
  from replace_text_count [OF u ok, of report_world "''report''"] f u ok d
  show ?thesis
    by (simp add: report_expected str_nat.simps digit_char_def)
qed

text \<open>
  Claim C1 as stated fails in two places. A cell merged over two positions of a row is
  visited twice: with \<open>x\<close> replaced by \<open>xx\<close> in a merged cell that reads \<open>x\<close> the
  counter ends at 3 and the cell reads \<open>xxxx\<close>, while the sum of the claim is 2. And the
  count is taken in the text read back: with \<open>x\<close> replaced by a carriage return in
  \<open>axa\<close> the text reads back with a newline, the counter is 0 and nothing is saved,
  while the sum of the claim is 1.
\<close>

theorem replace_text_count_counterexample:
  "replace_in_document ''x'' ''xx'' merged_doc =
     Inr (merged_doc\<lparr>tables := [\<lparr>cells = [[\<lparr>runs = [plain ''xxxx''], style = Normal\<rparr>]],
                                 grid = [[0, 0]]\<rparr>]\<rparr>, 3) \<and>
   claimed_count ''x'' ''xx'' (all_paragraphs merged_doc) = 2 \<and>
   fst (replace_text tricky_world ''merged'' ''x'' ''xx'') =
     ''Replaced 3 occurrence(s) of '' @ quoted ''x'' @ '' with '' @ quoted ''xx'' \<and>
   replace_in_document ''x'' [CHR 0x0D] axa_doc =
     Inr (axa_doc\<lparr>body := [\<lparr>runs = [plain [CHR ''a'', CHR 0x0A, CHR ''a'']],
                               style = Normal\<rparr>]\<rparr>, 0) \<and>
   claimed_count ''x'' [CHR 0x0D] (all_paragraphs axa_doc) = 1 \<and>
   replace_text tricky_world ''axa'' ''x'' [CHR 0x0D] =
     (''No occurrences of '' @ quoted ''x'' @ '' found'', tricky_world)"
proof -
  have m: "replace_in_document ''x'' ''xx'' merged_doc =
     Inr (merged_doc\<lparr>tables := [\<lparr>cells = [[\<lparr>runs = [plain ''xxxx''], style = Normal\<rparr>]],
                                 grid = [[0, 0]]\<rparr>]\<rparr>, 3)"
    by (simp add: replace_in_document_def replace_in_paragraph_def paragraph_text_def
        set_run_text_def has_control_def is_control_def stored_text_def py_replace_def
        py_count_def merged_doc_def blank_document_def plain_def)
  have mc: "claimed_count ''x'' ''xx'' (all_paragraphs merged_doc) = 2"
    by (simp add: claimed_count_def claimed_run_score_def all_paragraphs_def
        table_paragraphs_def table_cells_def paragraph_text_def py_replace_def py_count_def
        merged_doc_def blank_document_def plain_def)
  have a: "replace_in_document ''x'' [CHR 0x0D] axa_doc =
     Inr (axa_doc\<lparr>body := [\<lparr>runs = [plain [CHR ''a'', CHR 0x0A, CHR ''a'']],
                               style = Normal\<rparr>]\<rparr>, 0)"
    by (simp add: replace_in_document_def replace_in_paragraph_def paragraph_text_def
        set_run_text_def has_control_def is_control_def stored_text_def py_replace_def
        py_count_def axa_doc_def blank_document_def plain_def)
  have ac: "claimed_count ''x'' [CHR 0x0D] (all_paragraphs axa_doc) = 1"
    by (simp add: claimed_count_def claimed_run_score_def all_paragraphs_def
        table_paragraphs_def table_cells_def paragraph_text_def py_replace_def py_count_def
        axa_doc_def blank_document_def plain_def)
  have e: "ensure_docx_extension ''merged'' = ''merged.docx''"
    "ensure_docx_extension ''axa'' = ''axa.docx''"
    by (simp_all add: ensure_docx_extension_def py_endswith_def)
  have fm: "files tricky_world ''merged.docx'' = Some (Docx merged_doc)"
    "files tricky_world ''axa.docx'' = Some (Docx axa_doc)"
    "\<not> unwritable tricky_world ''merged.docx''"
    by (simp_all add: tricky_world_def world_of_def)
  have rm: "fst (replace_text tricky_world ''merged'' ''x'' ''xx'') =
     ''Replaced 3 occurrence(s) of '' @ quoted ''x'' @ '' with '' @ quoted ''xx''"
    by (simp add: replace_text_def e fm m check_file_exists_def Document_def save_def
        str_nat.simps digit_char_def)
  have ra: "replace_text tricky_world ''axa'' ''x'' [CHR 0x0D] =
     (''No occurrences of '' @ quoted ''x'' @ '' found'', tricky_world)"
    by (simp add: replace_text_def e fm a check_file_exists_def Document_def)
  from m mc rm a ac ra show ?thesis by blast
qed

section \<open>A match split over two runs\<close>

lemma replace_in_runs_no_match:
  "\<forall>x\<in>set rs. \<not> py_in f (run_text x) \<Longrightarrow> replace_in_runs f new rs n = Inr (rs, n)"
  by (induction rs arbitrary: n) simp_all

lemma replace_in_paragraph_no_match:
  "\<forall>x\<in>set (runs p). \<not> py_in f (run_text x) \<Longrightarrow>
   replace_in_paragraph f new p n = Inr (p, n)"
  by (simp add: replace_in_paragraph_def replace_in_runs_no_match)

lemma replace_in_paragraphs_no_match:
  "\<forall>p\<in>set ps. \<forall>x\<in>set (runs p). \<not> py_in f (run_text x) \<Longrightarrow>
   replace_in_paragraphs f new ps n = Inr (ps, n)"
  by (induction ps arbitrary: n) (simp_all add: replace_in_paragraph_no_match)

lemma replace_in_cells_no_match:
  "\<forall>i\<in>set row. i < length cs \<longrightarrow> (\<forall>p\<in>set (cs ! i). \<forall>x\<in>set (runs p). \<not> py_in f (run_text x)) \<Longrightarrow>
   replace_in_cells f new cs row n = Inr (cs, n)"
proof (induction row arbitrary: n)
  case Nil
  show ?case by simp
next
  case (Cons i row)
  have rest: "\<forall>k\<in>set row. k < length cs \<longrightarrow>
                (\<forall>p\<in>set (cs ! k). \<forall>x\<in>set (runs p). \<not> py_in f (run_text x))"
    using Cons.prems by simp
  show ?case
  proof (cases "i < length cs")
    case True
    then have "\<forall>p\<in>set (cs ! i). \<forall>x\<in>set (runs p). \<not> py_in f (run_text x)"
      using Cons.prems by simp
    then have "replace_in_paragraphs f new (cs ! i) n = Inr (cs ! i, n)"
      by (rule replace_in_paragraphs_no_match)
    with True show ?thesis by (simp add: Cons.IH [OF rest])
  next
    case False
    then show ?thesis by (simp add: Cons.IH [OF rest])
  qed
qed

lemma replace_in_tables_no_match:
  "\<forall>t\<in>set ts. \<forall>p\<in>set (table_paragraphs t). \<forall>x\<in>set (runs p). \<not> py_in f (run_text x) \<Longrightarrow>
   replace_in_tables f new ts n = Inr (ts, n)"
proof (induction ts arbitrary: n)
  case Nil
  show ?case by simp
next
  case (Cons t ts)
  have a: "\<forall>i\<in>set (concat (grid t)). i < length (cells t) \<longrightarrow>
             (\<forall>p\<in>set (cells t ! i). \<forall>x\<in>set (runs p). \<not> py_in f (run_text x))"
    using Cons.prems by (auto simp: table_paragraphs_def table_cells_def)
  have b: "\<forall>t\<in>set ts. \<forall>p\<in>set (table_paragraphs t). \<forall>x\<in>set (runs p). \<not> py_in f (run_text x)"
    using Cons.prems by simp
  show ?case
    by (simp add: replace_in_rows_concat replace_in_cells_no_match [OF a] Cons.IH [OF b])
qed

lemma replace_in_document_no_match:
  assumes "\<forall>x\<in>set (all_runs doc). \<not> py_in f (run_text x)"
  shows "replace_in_document f new doc = Inr (doc, 0)"
proof -
  from assms have b: "\<forall>p\<in>set (body doc). \<forall>x\<in>set (runs p). \<not> py_in f (run_text x)"
    and t: "\<forall>t\<in>set (tables doc). \<forall>p\<in>set (table_paragraphs t).
              \<forall>x\<in>set (runs p). \<not> py_in f (run_text x)"
    by (auto simp: all_runs_def all_paragraphs_def)
  show ?thesis
    by (simp add: replace_in_document_def replace_in_paragraphs_no_match [OF b]
        replace_in_tables_no_match [OF t])
qed

text \<open>
  Claim C2. When \<open>find_text\<close> occurs in the text of some paragraph but in the text of
  no single run, \<open>replace_text\<close> changes no run, does not save, leaves the world as it
  was and answers that there is no occurrence.
\<close>

theorem replace_text_split_match:
  assumes "files w (ensure_docx_extension filename) = Some (Docx doc)"
    and "\<exists>p\<in>set (all_paragraphs doc). py_in find_text (paragraph_text p)"
    and "\<forall>x\<in>set (all_runs doc). \<not> py_in find_text (run_text x)"
  shows "replace_in_document find_text new_text doc = Inr (doc, 0) \<and>
         replace_text w filename find_text new_text =
           (''No occurrences of '' @ quoted find_text @ '' found'', w)"
  using assms(1) replace_in_document_no_match [OF assms(3), of new_text]
  by (simp add: replace_text_def check_file_exists_def Document_def)

theorem replace_text_split_match_witness:
  "py_in ''hello'' (paragraph_text (hd (body split_doc))) \<and>
   replace_in_document ''hello'' ''bye'' split_doc = Inr (split_doc, 0) \<and>
   replace_text split_world ''memo'' ''hello'' ''bye'' =
     (''No occurrences of '' @ quoted ''hello'' @ '' found'', split_world)"
proof -
  have e: "ensure_docx_extension ''memo'' = ''memo.docx''"
    by (simp add: ensure_docx_extension_def py_endswith_def)
  have 1: "files split_world (ensure_docx_extension ''memo'') = Some (Docx split_doc)"
    by (simp add: e split_world_def world_of_def)
  have 2: "\<exists>p\<in>set (all_paragraphs split_doc). py_in ''hello'' (paragraph_text p)"
    by (simp add: all_paragraphs_def split_doc_def blank_document_def plain_def
        paragraph_text_def)
  have 3: "\<forall>x\<in>set (all_runs split_doc). \<not> py_in ''hello'' (run_text x)"
    by (simp add: all_runs_def all_paragraphs_def split_doc_def blank_document_def plain_def)
  have 4: "py_in ''hello'' (paragraph_text (hd (body split_doc)))"
    by (simp add: split_doc_def blank_document_def plain_def paragraph_text_def)
  from replace_text_split_match [OF 1 2 3, of "''bye''"] 4 show ?thesis by simp
qed

section \<open>The empty search string\<close>

lemma py_startswith_Nil: "py_startswith s [] = True"
  by (cases s) simp_all


lemma py_startswith_append: "py_startswith (p @ s) p"
  by (induction p) simp_all

















section \<open>The default extension\<close>

lemma py_endswith_append: "py_endswith (s @ p) p"
  by (simp add: py_endswith_def py_startswith_append)

lemma ensure_docx_extension_appended:
  "ensure_docx_extension (filename @ ''.docx'') = filename @ ''.docx''"
  using py_endswith_append [of filename "''.docx''"]
  by (simp add: ensure_docx_extension_def)

lemma ensure_docx_extension_idem:
  "ensure_docx_extension (ensure_docx_extension filename) = ensure_docx_extension filename"
  using ensure_docx_extension_appended [of filename]
  by (simp add: ensure_docx_extension_def)

text \<open>
  Claim C3. For a file name that does not end with \<open>.docx\<close>, every operation that
  takes the name of a document answers and acts as the same call does with
  \<open>.docx\<close> already appended to that argument: \<open>read_document\<close>,
  \<open>get_document_info\<close>, \<open>copy_document\<close> (in its source and in its target),
  \<open>create_document\<close>, \<open>write_text\<close>, \<open>add_heading\<close>, \<open>replace_text\<close> and
  \<open>export_to_pdf\<close> (in its source).
\<close>

theorem default_extension:
  assumes "\<not> py_endswith filename ''.docx''"
  shows "read_document w filename = read_document w (filename @ ''.docx'') \<and>
         get_document_info getsize json_dumps w filename =
           get_document_info getsize json_dumps w (filename @ ''.docx'') \<and>
         copy_document w filename other = copy_document w (filename @ ''.docx'') other \<and>
         copy_document w other filename = copy_document w other (filename @ ''.docx'') \<and>
         create_document w filename title_arg author_arg =
           create_document w (filename @ ''.docx'') title_arg author_arg \<and>
         write_text w filename txt append_flag =
           write_text w (filename @ ''.docx'') txt append_flag \<and>
         add_heading w filename txt level = add_heading w (filename @ ''.docx'') txt level \<and>
         replace_text w filename find_text new_text =
           replace_text w (filename @ ''.docx'') find_text new_text \<and>
         export_to_pdf subprocess_run w filename target_filename =
           export_to_pdf subprocess_run w (filename @ ''.docx'') target_filename"
proof -
  have e: "ensure_docx_extension (filename @ ''.docx'') = ensure_docx_extension filename"
    using assms ensure_docx_extension_appended [of filename]
    by (simp add: ensure_docx_extension_def)
  have 1: "read_document w filename = read_document w (filename @ ''.docx'')"
    by (simp only: read_document_def e)
  have 2: "get_document_info getsize json_dumps w filename =
           get_document_info getsize json_dumps w (filename @ ''.docx'')"
    by (simp only: get_document_info_def e)
  have 3: "copy_document w filename other = copy_document w (filename @ ''.docx'') other"
    by (simp only: copy_document_def e)
  have 4: "copy_document w other filename = copy_document w other (filename @ ''.docx'')"
    by (simp only: copy_document_def e)
  have 5: "create_document w filename title_arg author_arg =
           create_document w (filename @ ''.docx'') title_arg author_arg"
    by (simp only: create_document_def e)
  have 6: "write_text w filename txt append_flag =
           write_text w (filename @ ''.docx'') txt append_flag"
    by (simp only: write_text_def e)
  have 7: "add_heading w filename txt level = add_heading w (filename @ ''.docx'') txt level"
    by (simp only: add_heading_def e)
  have 8: "replace_text w filename find_text new_text =
           replace_text w (filename @ ''.docx'') find_text new_text"
    by (simp only: replace_text_def e)
  have 9: "export_to_pdf subprocess_run w filename target_filename =
           export_to_pdf subprocess_run w (filename @ ''.docx'') target_filename"
    by (simp only: export_to_pdf_def e)
  from 1 2 3 4 5 6 7 8 9 show ?thesis by blast
qed

theorem default_extension_witness:
  "\<not> py_endswith ''memo'' ''.docx'' \<and>
   read_document split_world ''memo'' = read_document split_world ''memo.docx'' \<and>
   read_document split_world ''memo'' = (''hello world'', split_world)"
proof -
  have a: "\<not> py_endswith ''memo'' ''.docx''"
    by (simp add: py_endswith_def)
  have b: "read_document split_world ''memo.docx'' = (''hello world'', split_world)"
    by (simp add: read_document_def ensure_docx_extension_def py_endswith_def
        check_file_exists_def Document_def split_world_def world_of_def split_doc_def
        blank_document_def plain_def paragraph_text_def py_strip_def is_space_def)
  from default_extension [OF a, of split_world] a b show ?thesis by simp
qed

section \<open>Heading levels\<close>

text \<open>
  Claim C4. \<open>add_heading\<close> with a level below 1 or above 6 answers with the
  invalid-level error and leaves every file as it was; a file that was absent stays
  absent.
\<close>

theorem add_heading_bad_level:
  "level < 1 \<or> level > 6 \<Longrightarrow>
   add_heading w filename txt level = (''Error: Heading level must be between 1 and 6'', w)"
  by (simp add: add_heading_def)

theorem add_heading_bad_level_witness:
  "add_heading split_world ''new'' ''Intro'' 7 =
     (''Error: Heading level must be between 1 and 6'', split_world) \<and>
   \<not> check_file_exists (snd (add_heading split_world ''new'' ''Intro'' 7))
       (ensure_docx_extension ''new'')"
proof -
  have a: "(7::int) < 1 \<or> (7::int) > 6" by simp
  have b: "\<not> check_file_exists split_world (ensure_docx_extension ''new'')"
    by (simp add: check_file_exists_def ensure_docx_extension_def py_endswith_def
        split_world_def world_of_def)
  from add_heading_bad_level [OF a, of split_world "''new''" "''Intro''"] b
  show ?thesis by simp
qed

section \<open>Copying a document\<close>

lemma ensure_final: "ensure_docx_extension ''final'' = ''final.docx''"
  by (simp add: ensure_docx_extension_def py_endswith_def)

lemma ensure_draft: "ensure_docx_extension ''draft'' = ''draft.docx''"
  by (simp add: ensure_docx_extension_def py_endswith_def)

text \<open>
  Claim C5 as stated fails where the target exists and the source does not:
  \<open>copy_document\<close> checks the source first and answers with the not-found error, not
  with the already-exists error.
\<close>

theorem copy_document_target_exists_counterexample:
  "check_file_exists shelf_world (ensure_docx_extension ''final'') \<and>
   fst (copy_document shelf_world ''draft'' ''final'') \<noteq>
     ''Error: Target document '' @ quoted (ensure_docx_extension ''final'') @ '' already exists'' \<and>
   copy_document shelf_world ''draft'' ''final'' =
     (''Error: Source document '' @ quoted ''draft.docx'' @ '' does not exist'', shelf_world)"
  by (simp add: copy_document_def ensure_final ensure_draft check_file_exists_def
      shelf_world_def world_of_def)

text \<open>
  Claim C5, amended. Where the source exists and the target already exists,
  \<open>copy_document\<close> answers with the already-exists error; where the source is absent
  it answers with the not-found error; in both cases every file is left as it was.
\<close>

theorem copy_document_errors:
  "(check_file_exists w (ensure_docx_extension source_filename) \<longrightarrow>
    check_file_exists w (ensure_docx_extension target_filename) \<longrightarrow>
    copy_document w source_filename target_filename =
      (''Error: Target document '' @ quoted (ensure_docx_extension target_filename)
         @ '' already exists'', w)) \<and>
   (\<not> check_file_exists w (ensure_docx_extension source_filename) \<longrightarrow>
    copy_document w source_filename target_filename =
      (''Error: Source document '' @ quoted (ensure_docx_extension source_filename)
         @ '' does not exist'', w))"
  by (simp add: copy_document_def)

theorem copy_document_errors_witness:
  "check_file_exists shelf_world (ensure_docx_extension ''final'') \<and>
   copy_document shelf_world ''final'' ''final.docx'' =
     (''Error: Target document '' @ quoted ''final.docx'' @ '' already exists'', shelf_world) \<and>
   \<not> check_file_exists shelf_world (ensure_docx_extension ''draft'') \<and>
   copy_document shelf_world ''draft'' ''copy'' =
     (''Error: Source document '' @ quoted ''draft.docx'' @ '' does not exist'', shelf_world)"
proof -
  have a: "check_file_exists shelf_world (ensure_docx_extension ''final'')"
    by (simp add: ensure_final check_file_exists_def shelf_world_def world_of_def)
  have a': "check_file_exists shelf_world (ensure_docx_extension ''final.docx'')"
    by (simp add: ensure_docx_extension_appended [of "''final''", simplified]
        check_file_exists_def shelf_world_def world_of_def)
  have b: "\<not> check_file_exists shelf_world (ensure_docx_extension ''draft'')"
    by (simp add: ensure_draft check_file_exists_def shelf_world_def world_of_def)
  have e: "ensure_docx_extension ''final.docx'' = ''final.docx''"
    using ensure_docx_extension_appended [of "''final''"] by simp
  from copy_document_errors [of shelf_world "''final''" "''final.docx''"]
    copy_document_errors [of shelf_world "''draft''" "''copy''"] a a' b
  show ?thesis by (simp add: e ensure_draft)
qed

section \<open>Reading a document\<close>

lemma py_strip_nonblank: "(py_strip t \<noteq> []) = nonblank t"
proof -
  have "(dropWhile is_space (rev (dropWhile is_space (rev t))) = []) =
        (\<forall>c\<in>set (dropWhile is_space (rev t)). is_space c)"
    by (simp add: dropWhile_eq_Nil_conv)
  also have "\<dots> = (\<forall>c\<in>set t. is_space c)"
  proof
    assume h: "\<forall>c\<in>set (dropWhile is_space (rev t)). is_space c"
    have "dropWhile is_space (rev t) = []"
    proof (rule ccontr)
      assume n: "dropWhile is_space (rev t) \<noteq> []"
      then have "\<not> is_space (hd (dropWhile is_space (rev t)))" by (rule hd_dropWhile)
      moreover have "hd (dropWhile is_space (rev t)) \<in> set (dropWhile is_space (rev t))"
        using n by simp
      ultimately show False using h by blast
    qed
    then show "\<forall>c\<in>set t. is_space c" by (simp add: dropWhile_eq_Nil_conv)
  next
    assume "\<forall>c\<in>set t. is_space c"
    then show "\<forall>c\<in>set (dropWhile is_space (rev t)). is_space c"
      by (auto dest: set_dropWhileD)
  qed
  finally show ?thesis by (auto simp: py_strip_def nonblank_def)
qed

text \<open>
  Claim C7 as stated fails on a paragraph whose text is one space: the text is not
  empty, and \<open>read_document\<close> leaves it out.
\<close>

theorem read_document_nonempty_counterexample:
  "files blank_line_world (ensure_docx_extension ''notes'') = Some (Docx blank_line_doc) \<and>
   fst (read_document blank_line_world ''notes'') \<noteq>
     py_join [CHR 0x0A]
       (filter (\<lambda>t. t \<noteq> []) (map paragraph_text (body blank_line_doc))) \<and>
   fst (read_document blank_line_world ''notes'') = ''first'' @ [CHR 0x0A] @ ''second''"
  by (simp add: read_document_def ensure_docx_extension_def py_endswith_def
      check_file_exists_def Document_def blank_line_world_def world_of_def blank_line_doc_def
      blank_document_def plain_def paragraph_text_def py_strip_def is_space_def)

text \<open>
  Claim C7, amended. On an absent file \<open>read_document\<close> answers with the not-found
  error. On a document it answers with the texts of the body paragraphs that have a
  character other than white space, in document order, joined by a single newline. In
  both cases every file is left as it was.
\<close>

theorem read_document_result:
  "(files w (ensure_docx_extension filename) = None \<longrightarrow>
    read_document w filename =
      (''Error: Document '' @ quoted (ensure_docx_extension filename) @ '' does not exist'', w)) \<and>
   (files w (ensure_docx_extension filename) = Some (Docx doc) \<longrightarrow>
    read_document w filename =
      (py_join [CHR 0x0A] (filter nonblank (map paragraph_text (body doc))), w))"
proof -
  have "map paragraph_text (filter (\<lambda>p. py_strip (paragraph_text p) \<noteq> []) ps) =
        filter nonblank (map paragraph_text ps)" for ps
    by (induction ps) (simp_all add: py_strip_nonblank)
  then show ?thesis
    by (simp add: read_document_def check_file_exists_def Document_def)
qed

theorem read_document_result_witness:
  "files blank_line_world (ensure_docx_extension ''notes'') = Some (Docx blank_line_doc) \<and>
   read_document blank_line_world ''notes'' =
     (''first'' @ [CHR 0x0A] @ ''second'', blank_line_world) \<and>
   files blank_line_world (ensure_docx_extension ''nothing'') = None \<and>
   read_document blank_line_world ''nothing'' =
     (''Error: Document '' @ quoted ''nothing.docx'' @ '' does not exist'', blank_line_world)"
proof -
  have e: "ensure_docx_extension ''notes'' = ''notes.docx''"
    "ensure_docx_extension ''nothing'' = ''nothing.docx''"
    by (simp_all add: ensure_docx_extension_def py_endswith_def)
  have a: "files blank_line_world (ensure_docx_extension ''notes'') = Some (Docx blank_line_doc)"
    by (simp add: e blank_line_world_def world_of_def)
  have b: "files blank_line_world (ensure_docx_extension ''nothing'') = None"
    by (simp add: e blank_line_world_def world_of_def)
  have c: "filter nonblank (map paragraph_text (body blank_line_doc)) = [''first'', ''second'']"
    by (simp add: blank_line_doc_def blank_document_def plain_def paragraph_text_def
        nonblank_def is_space_def)
  from read_document_result [of blank_line_world "''notes''" blank_line_doc]
    read_document_result [of blank_line_world "''nothing''" blank_line_doc] a b
  show ?thesis by (simp add: c e)
qed

section \<open>The message of write_text\<close>

lemma save_exists: "save w doc filename = Inr w' \<Longrightarrow> check_file_exists w' filename"
  by (auto simp: save_def check_file_exists_def split: if_splits)

lemma add_paragraph_Normal:
  "\<not> has_control txt \<Longrightarrow>
   add_paragraph doc txt Normal =
     Inr (doc\<lparr>body := body doc @
            [\<lparr>runs = (if txt = [] then []
                       else [\<lparr>run_text = stored_text txt, run_format = 0\<rparr>]),
              style = Normal\<rparr>]\<rparr>)"
  by (simp add: add_paragraph_def set_run_text_def)

text \<open>
  Claim C8. With \<open>append\<close> true, an answer of \<open>write_text\<close> that is not an error reads
  \<open>appended to\<close>; in particular, when the file did not exist and can be written, and
  the library accepts the text, a new document with the one paragraph is created and the
  answer still reads \<open>appended to\<close>: the existence check that chooses the wording looks
  at the file system after the save.
\<close>

theorem write_text_append_message:
  "(fst (write_text w filename txt True) =
      ''Text appended to '' @ quoted (ensure_docx_extension filename) @ '' successfully'' \<or>
    (\<exists>e. fst (write_text w filename txt True) = ''Error writing to document: '' @ str_exc w e)) \<and>
   (\<not> check_file_exists w (ensure_docx_extension filename) \<longrightarrow>
    \<not> unwritable w (ensure_docx_extension filename) \<longrightarrow>
    \<not> has_control txt \<longrightarrow>
    write_text w filename txt True =
      (''Text appended to '' @ quoted (ensure_docx_extension filename) @ '' successfully'',
       w\<lparr>files := (files w)(ensure_docx_extension filename \<mapsto>
            Docx ((template w)\<lparr>body := body (template w) @
              [\<lparr>runs = (if txt = [] then []
                         else [\<lparr>run_text = stored_text txt, run_format = 0\<rparr>]),
                style = Normal\<rparr>]\<rparr>))\<rparr>))"
proof -
  have a: "fst (write_text w filename txt True) =
      ''Text appended to '' @ quoted (ensure_docx_extension filename) @ '' successfully'' \<or>
    (\<exists>e. fst (write_text w filename txt True) = ''Error writing to document: '' @ str_exc w e)"
    by (auto simp: write_text_def Let_def save_def check_file_exists_def split: sum.splits)
  have b: "write_text w filename txt True =
      (''Text appended to '' @ quoted (ensure_docx_extension filename) @ '' successfully'',
       w\<lparr>files := (files w)(ensure_docx_extension filename \<mapsto>
            Docx ((template w)\<lparr>body := body (template w) @
              [\<lparr>runs = (if txt = [] then []
                         else [\<lparr>run_text = stored_text txt, run_format = 0\<rparr>]),
                style = Normal\<rparr>]\<rparr>))\<rparr>)"
    if "\<not> check_file_exists w (ensure_docx_extension filename)"
      "\<not> unwritable w (ensure_docx_extension filename)" "\<not> has_control txt"
    using that
    by (simp add: write_text_def Let_def add_paragraph_Normal save_def check_file_exists_def)
  from a b show ?thesis by blast
qed

theorem write_text_append_message_witness:
  "\<not> check_file_exists split_world (ensure_docx_extension ''fresh'') \<and>
   \<not> has_control ''hi'' \<and>
   write_text split_world ''fresh'' ''hi'' True =
     (''Text appended to '' @ quoted ''fresh.docx'' @ '' successfully'',
      split_world\<lparr>files := (files split_world)(''fresh.docx'' \<mapsto>
         Docx (blank_document\<lparr>body := [\<lparr>runs = [plain ''hi''], style = Normal\<rparr>]\<rparr>))\<rparr>)"
proof -
  have e: "ensure_docx_extension ''fresh'' = ''fresh.docx''"
    by (simp add: ensure_docx_extension_def py_endswith_def)
  have a: "\<not> check_file_exists split_world (ensure_docx_extension ''fresh'')"
    by (simp add: e check_file_exists_def split_world_def world_of_def)
  have b: "\<not> unwritable split_world (ensure_docx_extension ''fresh'')"
    by (simp add: split_world_def world_of_def)
  have h: "\<not> has_control ''hi''"
    by (simp add: has_control_def is_control_def)
  have t: "template split_world = blank_document"
    by (simp add: split_world_def world_of_def)
  have k: "write_text split_world ''fresh'' ''hi'' True =
      (''Text appended to '' @ quoted (ensure_docx_extension ''fresh'') @ '' successfully'',
       split_world\<lparr>files := (files split_world)(ensure_docx_extension ''fresh'' \<mapsto>
            Docx ((template split_world)\<lparr>body := body (template split_world) @
              [\<lparr>runs = (if ''hi'' = [] then []
                         else [\<lparr>run_text = stored_text ''hi'', run_format = 0\<rparr>]),
                style = Normal\<rparr>]\<rparr>))\<rparr>)"
    using write_text_append_message [of split_world "''fresh''" "''hi''"] a b h by blast
  have "write_text split_world ''fresh'' ''hi'' True =
     (''Text appended to '' @ quoted ''fresh.docx'' @ '' successfully'',
      split_world\<lparr>files := (files split_world)(''fresh.docx'' \<mapsto>
         Docx (blank_document\<lparr>body := [\<lparr>runs = [plain ''hi''], style = Normal\<rparr>]\<rparr>))\<rparr>)"
    unfolding k by (simp add: e t stored_text_def blank_document_def plain_def)
  with a h show ?thesis by blast
qed

section \<open>The existence check of export_to_pdf\<close>

text \<open>
  Claim C9. When the conversion succeeds and the target path is the very path the
  converter writes to (the output directory joined with the base name of the source and
  \<open>.pdf\<close>), \<open>export_to_pdf\<close> answers with success and leaves the files as the
  converter left them, whether or not a file was at the target path before: nothing is
  checked. Only when the two paths differ is a file at the target path rejected with the
  already-exists error.
\<close>

theorem export_to_pdf_exists_check:
  assumes "source_path = ensure_docx_extension source_filename"
    and "target_path = target_path_of source_path target_filename"
    and "output_dir = output_dir_of target_path"
    and "check_file_exists w source_path"
    and "subprocess_run w [''soffice'', ''--headless'', ''--convert-to'', ''pdf'', source_path,
           ''--outdir'', output_dir] = (Inr result, w')"
    and "returncode result = 0"
  shows "(converted_path_of source_path output_dir = target_path \<longrightarrow>
          export_to_pdf subprocess_run w source_filename target_filename =
            (''Document converted to PDF: '' @ quoted target_path, w')) \<and>
         (converted_path_of source_path output_dir \<noteq> target_path \<longrightarrow>
          check_file_exists w' target_path \<longrightarrow>
          export_to_pdf subprocess_run w source_filename target_filename =
            (''Error: Target file '' @ quoted target_path @ '' already exists'', w'))"
  using assms by (simp add: export_to_pdf_def Let_def)

lemma docs_paths:
  "ensure_docx_extension ''docs/a'' = ''docs/a.docx''"
  "ensure_docx_extension ''docs/b'' = ''docs/b.docx''"
  "target_path_of ''docs/a.docx'' None = ''docs/a.pdf''"
  "target_path_of ''docs/b.docx'' (Some ''docs/a.pdf'') = ''docs/a.pdf''"
  "output_dir_of ''docs/a.pdf'' = ''docs''"
  "converted_path_of ''docs/a.docx'' ''docs'' = ''docs/a.pdf''"
  "converted_path_of ''docs/b.docx'' ''docs'' = ''docs/b.pdf''"
  by (simp_all add: ensure_docx_extension_def py_endswith_def target_path_of_def py_replace_def
      py_lower_def lower_char_def output_dir_of_def dirname_def py_rfind_def
      converted_path_of_def basename_def splitext_def path_join_def)


theorem export_to_pdf_exists_check_witness:
  "check_file_exists docs_world ''docs/a.pdf'' \<and>
   export_to_pdf office docs_world ''docs/a'' None =
     (''Document converted to PDF: '' @ quoted ''docs/a.pdf'',
      docs_world\<lparr>files := (files docs_world)(''docs/a.pdf'' \<mapsto> Other ''new pdf'')\<rparr>) \<and>
   export_to_pdf office docs_world ''docs/b'' (Some ''docs/a.pdf'') =
     (''Error: Target file '' @ quoted ''docs/a.pdf'' @ '' already exists'',
      docs_world\<lparr>files := (files docs_world)(''docs/b.pdf'' \<mapsto> Other ''new pdf'')\<rparr>)"
proof -
  have x: "check_file_exists docs_world ''docs/a.pdf''"
    "check_file_exists docs_world ''docs/a.docx''"
    "check_file_exists docs_world ''docs/b.docx''"
    by (simp_all add: check_file_exists_def docs_world_def world_of_def)
  have ra: "office docs_world [''soffice'', ''--headless'', ''--convert-to'', ''pdf'',
              ''docs/a.docx'', ''--outdir'', ''docs''] =
            (Inr \<lparr>returncode = 0, stdout = [], stderr = []\<rparr>,
             docs_world\<lparr>files := (files docs_world)(''docs/a.pdf'' \<mapsto> Other ''new pdf'')\<rparr>)"
    using docs_paths(6) by (simp add: office_def converted_path_of_def)
  have rb: "office docs_world [''soffice'', ''--headless'', ''--convert-to'', ''pdf'',
              ''docs/b.docx'', ''--outdir'', ''docs''] =
            (Inr \<lparr>returncode = 0, stdout = [], stderr = []\<rparr>,
             docs_world\<lparr>files := (files docs_world)(''docs/b.pdf'' \<mapsto> Other ''new pdf'')\<rparr>)"
    using docs_paths(7) by (simp add: office_def converted_path_of_def)
  have xb: "check_file_exists
              (docs_world\<lparr>files := (files docs_world)(''docs/b.pdf'' \<mapsto> Other ''new pdf'')\<rparr>)
              ''docs/a.pdf''"
    by (simp add: check_file_exists_def docs_world_def world_of_def)
  have a: "export_to_pdf office docs_world ''docs/a'' None =
     (''Document converted to PDF: '' @ quoted ''docs/a.pdf'',
      docs_world\<lparr>files := (files docs_world)(''docs/a.pdf'' \<mapsto> Other ''new pdf'')\<rparr>)"
    using export_to_pdf_exists_check [of "''docs/a.docx''" "''docs/a''" "''docs/a.pdf''" None
        "''docs''" docs_world office, OF _ _ _ x(2) ra]
    by (simp add: docs_paths)
  have b: "export_to_pdf office docs_world ''docs/b'' (Some ''docs/a.pdf'') =
     (''Error: Target file '' @ quoted ''docs/a.pdf'' @ '' already exists'',
      docs_world\<lparr>files := (files docs_world)(''docs/b.pdf'' \<mapsto> Other ''new pdf'')\<rparr>)"
    using export_to_pdf_exists_check [of "''docs/b.docx''" "''docs/b''" "''docs/a.pdf''"
        "Some ''docs/a.pdf''" "''docs''" docs_world office, OF _ _ _ x(3) rb] xb
    by (simp add: docs_paths)
  from x(1) a b show ?thesis by blast
qed

section \<open>The target path of export_to_pdf\<close>

text \<open>
  A given target ends with \<open>.pdf\<close> in some spelling of upper and lower case after
  line 314.
\<close>

lemma py_lower_append: "py_lower (s @ t) = py_lower s @ py_lower t"
  by (simp add: py_lower_def)

lemma target_path_given:
  "py_endswith (py_lower (target_path_of source_path (Some t))) ''.pdf''"
proof (cases "py_endswith (py_lower t) ''.pdf''")
  case True
  then show ?thesis by (simp add: target_path_of_def)
next
  case False
  have "py_lower ''.pdf'' = ''.pdf''"
    by (simp add: py_lower_def lower_char_def)
  with False show ?thesis
    using py_endswith_append [of "py_lower t" "''.pdf''"]
    by (simp add: target_path_of_def py_lower_append)
qed

text \<open>
  Claim C6 at the source \<open>a.docx.docx\<close>: the claim (and the docstring, "same name
  with .pdf extension") gives the default target \<open>a.docx.pdf\<close>, while line 310
  replaces every \<open>.docx\<close> and \<open>export_to_pdf\<close> writes \<open>a.pdf.pdf\<close>.
\<close>

theorem default_target_path_double_extension:
  "ensure_docx_extension ''a.docx.docx'' = ''a.docx.docx'' \<and>
   check_file_exists archive_world ''a.docx.docx'' \<and>
   target_path_of ''a.docx.docx'' None = ''a.pdf.pdf'' \<and>
   fst (export_to_pdf office archive_world ''a.docx.docx'' None) =
     ''Document converted to PDF: '' @ quoted ''a.pdf.pdf'' \<and>
   files (snd (export_to_pdf office archive_world ''a.docx.docx'' None)) ''a.pdf.pdf'' =
     Some (Other ''new pdf'')"
proof -
  have e: "ensure_docx_extension ''a.docx.docx'' = ''a.docx.docx''"
    by (simp add: ensure_docx_extension_def py_endswith_def)
  have x: "check_file_exists archive_world ''a.docx.docx''"
    by (simp add: check_file_exists_def archive_world_def world_of_def)
  have t: "target_path_of ''a.docx.docx'' None = ''a.pdf.pdf''"
    by (simp add: target_path_of_def py_replace_def)
  have d: "output_dir_of ''a.pdf.pdf'' = ''.''"
    by (simp add: output_dir_of_def dirname_def py_rfind_def)
  have c: "converted_path_of ''a.docx.docx'' ''.'' = ''./a.docx.pdf''"
    by (simp add: converted_path_of_def basename_def splitext_def path_join_def py_rfind_def
        py_endswith_def)
  have r: "office archive_world [''soffice'', ''--headless'', ''--convert-to'', ''pdf'',
              ''a.docx.docx'', ''--outdir'', ''.''] =
            (Inr \<lparr>returncode = 0, stdout = [], stderr = []\<rparr>,
             archive_world\<lparr>files := (files archive_world)(''./a.docx.pdf'' \<mapsto> Other ''new pdf'')\<rparr>)"
    using c by (simp add: office_def converted_path_of_def)
  let ?w' = "archive_world\<lparr>files := (files archive_world)(''./a.docx.pdf'' \<mapsto> Other ''new pdf'')\<rparr>"
  let ?w'' = "?w'\<lparr>files := ((files ?w')(''./a.docx.pdf'' := None))
                (''a.pdf.pdf'' \<mapsto> Other ''new pdf'')\<rparr>"
  have nx: "\<not> check_file_exists ?w' ''a.pdf.pdf''"
    by (simp add: check_file_exists_def archive_world_def world_of_def)
  have rn: "rename ?w' ''./a.docx.pdf'' ''a.pdf.pdf'' = Inr ?w''"
    by (simp add: rename_def archive_world_def world_of_def)
  have "export_to_pdf office archive_world ''a.docx.docx'' None =
     (''Document converted to PDF: '' @ quoted ''a.pdf.pdf'', ?w'')"
    by (simp add: export_to_pdf_def Let_def e x t d c r nx rn)
  with e x t show ?thesis by simp
qed


text \<open>
  Where \<open>.docx\<close> occurs only at the end of the source path, the default target is
  the source path with that extension swapped.
\<close>

lemma docx_no_overlap:
  "py_startswith (c # cs @ ''.docx'') ''.docx'' \<Longrightarrow> py_startswith (c # cs) ''.docx''"
  by (cases cs; cases "tl cs"; cases "tl (tl cs)"; cases "tl (tl (tl cs))") auto

lemma replace_scan_docx_suffix:
  "\<not> py_in ''.docx'' stem \<Longrightarrow>
   replace_scan (stem @ ''.docx'') ''.docx'' ''.pdf'' = stem @ ''.pdf''"
proof (induction stem)
  case Nil
  show ?case by simp
next
  case (Cons c cs)
  from Cons.prems have a: "\<not> py_startswith (c # cs) ''.docx''" and b: "\<not> py_in ''.docx'' cs"
    by simp_all
  from a have "\<not> py_startswith (c # cs @ ''.docx'') ''.docx''"
    using docx_no_overlap [of c cs] by blast
  then have "replace_scan ((c # cs) @ ''.docx'') ''.docx'' ''.pdf'' =
             c # replace_scan (cs @ ''.docx'') ''.docx'' ''.pdf''"
    by (simp only: append_Cons replace_scan.simps if_False)
  with Cons.IH [OF b] show ?case by simp
qed

lemma default_target_single_extension:
  "\<not> py_in ''.docx'' stem \<Longrightarrow> target_path_of (stem @ ''.docx'') None = stem @ ''.pdf''"
  by (simp add: target_path_of_def py_replace_def replace_scan_docx_suffix)

end
